theory Spec2Isabelle
  imports Complex_Main "HOL-Library.Code_Target_Numeral"
begin

section \<open>The OpenStack driver of the Redfish emulator\<close>

text \<open>
  A shallow embedding of \<^verbatim>\<open>sushy_tools/emulator/drivers/novadriver.py\<close>: the class
  \<^verbatim>\<open>OpenStackDriver\<close>, which answers power, boot-device and inventory requests
  about a compute instance by calling an OpenStack connection.

  The connection itself (\<^verbatim>\<open>openstack.connect\<close>) is a collaborator of the driver. It
  is modelled by the state the driver can observe through the calls it makes, and by a
  log of the commands the driver has sent.
\<close>

subsection \<open>Data held by the backend\<close>

text \<open>
  The driver reads \<^verbatim>\<open>instance.id\<close>, \<^verbatim>\<open>instance.power_state\<close> and
  \<^verbatim>\<open>instance.flavor.id\<close> of a server, and \<^verbatim>\<open>flavor.ram\<close> and
  \<^verbatim>\<open>flavor.vcpus\<close> of a flavor. Python integers are unbounded. The field
  \<open>server_id\<close> is the attribute \<^verbatim>\<open>id\<close> (a name HOL already uses) and \<open>flavor_id\<close> is
  \<^verbatim>\<open>flavor.id\<close>. The private helpers \<^verbatim>\<open>_get_instance\<close> and \<^verbatim>\<open>_get_flavor\<close> are
  \<open>get_instance\<close> and \<open>get_flavor\<close> below.
\<close>

record server =
  server_id :: string
  power_state :: int
  flavor_id :: string

record flavor =
  ram :: int
  vcpus :: int

datatype reboot_type = SOFT | HARD

text \<open>
  Python values that travel between the driver and the backend client: \<^verbatim>\<open>None\<close>, a
  text, and a dictionary from text to text (its items in order, the first item of a key
  counting).
\<close>

datatype py_value = PyNone | PyStr string | PyDict "(string \<times> string) list"

text \<open>The requests that reach the backend and ask it to change something.\<close>

datatype command =
    start_server string
  | stop_server string
  | reboot_server string reboot_type
  | set_server_metadata string "(string \<times> string) list"

text \<open>
  \<^item> \<open>servers\<close> is \<^verbatim>\<open>get_server(name_or_id)\<close>: the server, or Python's
    \<^verbatim>\<open>None\<close> when nothing matches;
  \<^item> \<open>flavors\<close> is \<^verbatim>\<open>get_flavor(id)\<close>: the flavor, or \<^verbatim>\<open>None\<close>;
  \<^item> \<open>server_metadata\<close> is the metadata the backend holds for the server with that
    id: items of a key and a value, both text;
  \<^item> \<open>calls\<close> is the list of requests sent so far, oldest first.
\<close>

record connection =
  servers :: "string \<rightharpoonup> server"
  flavors :: "string \<rightharpoonup> flavor"
  server_metadata :: "string \<Rightarrow> (string \<times> string) list"
  calls :: "command list"

text \<open>The driver object: \<^verbatim>\<open>self._cc\<close> and \<^verbatim>\<open>self._os_cloud\<close>.\<close>

record OpenStackDriver =
  cc :: connection
  os_cloud :: string

subsection \<open>Errors\<close>

text \<open>
  \<^verbatim>\<open>FishyError\<close> is the only exception the driver raises itself; it carries a
  message. The others are raised by the Python runtime: reading an attribute of
  \<^verbatim>\<open>None\<close>, a missing dictionary key, an integer too large for a float, a call
  whose arguments do not fit the signature of the function called.
\<close>

datatype error =
    FishyError string
  | AttributeError
  | KeyError string
  | OverflowError
  | TypeError

fun is_FishyError :: "error + 'a \<Rightarrow> bool" where
  "is_FishyError (Inl (FishyError m)) = True"
| "is_FishyError r = False"

subsection \<open>Backend primitives\<close>

text \<open>
  A start, stop or reboot request is accepted and recorded; the power-state code of the
  server is the backend's to change later, so the request does not touch it.
\<close>

definition issue :: "command \<Rightarrow> OpenStackDriver \<Rightarrow> OpenStackDriver" where
  "issue c self = self\<lparr>cc := (cc self)\<lparr>calls := calls (cc self) @ [c]\<rparr>\<rparr>"

definition compute_start_server :: "OpenStackDriver \<Rightarrow> string \<Rightarrow> OpenStackDriver" where
  "compute_start_server self i = issue (start_server i) self"

definition compute_stop_server :: "OpenStackDriver \<Rightarrow> string \<Rightarrow> OpenStackDriver" where
  "compute_stop_server self i = issue (stop_server i) self"

definition compute_reboot_server ::
  "OpenStackDriver \<Rightarrow> string \<Rightarrow> reboot_type \<Rightarrow> OpenStackDriver" where
  "compute_reboot_server self i t = issue (reboot_server i t) self"

text \<open>
  The client's method is \<^verbatim>\<open>set_server_metadata(server, **metadata)\<close>: one positional
  argument, the server, and the metadata as keyword arguments. It is modelled with the
  list of positional arguments and the list of keyword arguments of the call. Python
  raises \<^verbatim>\<open>TypeError\<close> for any other number of positional arguments before the
  method runs, so nothing is sent then. A call that fits creates or replaces the given
  keys of that server and keeps the others. The driver names a server by the text of its
  id; a single positional argument of another kind is refused as well.
\<close>

definition compute_set_server_metadata ::
  "OpenStackDriver \<Rightarrow> py_value list \<Rightarrow> (string \<times> string) list
     \<Rightarrow> (error + unit) \<times> OpenStackDriver" where
  "compute_set_server_metadata self args kwargs =
     (case args of
        [PyStr i] \<Rightarrow>
          (Inr (),
           issue (set_server_metadata i kwargs)
             (self\<lparr>cc := (cc self)\<lparr>server_metadata :=
                (server_metadata (cc self))(i := kwargs @ server_metadata (cc self) i)\<rparr>\<rparr>))
      | _ \<Rightarrow> (Inl TypeError, self))"

text \<open>
  \<^verbatim>\<open>get_server_metadata(server)\<close> answers with a server resource that carries the id
  and the metadata. \<^verbatim>\<open>to_dict()\<close> of a resource is the dictionary of its attributes,
  so the metadata is the value under the key \<^verbatim>\<open>metadata\<close>. The remaining keys are the
  other attribute names of the resource class; none of them is
  \<^verbatim>\<open>libvirt:pxe-first\<close>, and they are left out.
\<close>

datatype resource = Server_resource string "(string \<times> string) list"

definition compute_get_server_metadata :: "OpenStackDriver \<Rightarrow> string \<Rightarrow> resource" where
  "compute_get_server_metadata self i = Server_resource i (server_metadata (cc self) i)"

fun to_dict :: "resource \<Rightarrow> (string \<rightharpoonup> py_value)" where
  "to_dict (Server_resource i md) = [''id'' \<mapsto> PyStr i, ''metadata'' \<mapsto> PyDict md]"

subsection \<open>Class constants\<close>

definition NOVA_POWER_STATE_ON :: int where
  "NOVA_POWER_STATE_ON = 1"

definition BOOT_DEVICE_MAP :: "(string \<times> string) list" where
  "BOOT_DEVICE_MAP = [(''Pxe'', ''network''), (''Hdd'', ''hd''), (''Cd'', ''cdrom'')]"

text \<open>\<^verbatim>\<open>{v: k for k, v in BOOT_DEVICE_MAP.items()}\<close>: a later item overwrites an earlier one.\<close>

definition BOOT_DEVICE_MAP_REV :: "string \<rightharpoonup> string" where
  "BOOT_DEVICE_MAP_REV = fold (\<lambda>(k, v) m. m(v \<mapsto> k)) BOOT_DEVICE_MAP Map.empty"

text \<open>Subscription \<^verbatim>\<open>d[k]\<close> of a dictionary raises \<^verbatim>\<open>KeyError\<close> on a missing key.\<close>

definition subscript :: "(string \<rightharpoonup> 'v) \<Rightarrow> string \<Rightarrow> error + 'v" where
  "subscript d k = (case d k of None \<Rightarrow> Inl (KeyError k) | Some v \<Rightarrow> Inr v)"

subsection \<open>Resolution helpers\<close>

text \<open>The double quote inside the messages.\<close>

definition dq :: string where
  "dq = [CHR 0x22]"

text \<open>
  \<^verbatim>\<open>_get_instance\<close>: the server found by \<^verbatim>\<open>get_server\<close>, or a
  \<^verbatim>\<open>FishyError\<close> whose message holds the identity and the cloud's name.
\<close>

definition get_instance :: "OpenStackDriver \<Rightarrow> string \<Rightarrow> error + server" where
  "get_instance self identity =
     (case servers (cc self) identity of
        Some server \<Rightarrow> Inr server
      | None \<Rightarrow>
          Inl (FishyError (''Error finding instance by UUID '' @ dq @ identity @ dq
                 @ '' at OS cloud '' @ os_cloud self @ dq)))"

text \<open>
  \<^verbatim>\<open>_get_flavor\<close> returns whatever \<^verbatim>\<open>get_flavor\<close> returns for the flavor id of
  the instance, \<^verbatim>\<open>None\<close> included: it has no check of its own.
\<close>

definition get_flavor :: "OpenStackDriver \<Rightarrow> string \<Rightarrow> error + flavor option" where
  "get_flavor self identity =
     (case get_instance self identity of
        Inl e \<Rightarrow> Inl e
      | Inr instance \<Rightarrow> Inr (flavors (cc self) (flavor_id instance)))"

subsection \<open>Identity and power state\<close>

definition uuid :: "OpenStackDriver \<Rightarrow> string \<Rightarrow> error + string" where
  "uuid self identity =
     (case get_instance self identity of
        Inl e \<Rightarrow> Inl e
      | Inr instance \<Rightarrow> Inr (server_id instance))"

text \<open>
  The readers return \<^verbatim>\<open>None\<close> (here \<open>Inr None\<close>) from their
  \<^verbatim>\<open>except FishyError\<close> clause; any other exception passes through.
\<close>

definition get_power_state :: "OpenStackDriver \<Rightarrow> string \<Rightarrow> error + string option" where
  "get_power_state self identity =
     (case get_instance self identity of
        Inl (FishyError m) \<Rightarrow> Inr None
      | Inl e \<Rightarrow> Inl e
      | Inr instance \<Rightarrow>
          if power_state instance = NOVA_POWER_STATE_ON then Inr (Some ''On'')
          else Inr (Some ''Off''))"

text \<open>
  A writer returns its outcome together with the driver after the call, so that what was
  sent before an exception stays visible.
\<close>

definition set_power_state ::
  "OpenStackDriver \<Rightarrow> string \<Rightarrow> string \<Rightarrow> (error + unit) \<times> OpenStackDriver" where
  "set_power_state self identity state =
     (case get_instance self identity of
        Inl e \<Rightarrow> (Inl e, self)
      | Inr instance \<Rightarrow>
          if state = ''On'' \<or> state = ''ForceOn'' then
            (if power_state instance \<noteq> NOVA_POWER_STATE_ON
             then (Inr (), compute_start_server self (server_id instance))
             else (Inr (), self))
          else if state = ''ForceOff'' then
            (if power_state instance = NOVA_POWER_STATE_ON
             then (Inr (), compute_stop_server self (server_id instance))
             else (Inr (), self))
          else if state = ''GracefulShutdown'' then
            (if power_state instance = NOVA_POWER_STATE_ON
             then (Inr (), compute_stop_server self (server_id instance))
             else (Inr (), self))
          else if state = ''GracefulRestart'' then
            (if power_state instance = NOVA_POWER_STATE_ON
             then (Inr (), compute_reboot_server self (server_id instance) SOFT)
             else (Inr (), self))
          else if state = ''ForceRestart'' then
            (if power_state instance = NOVA_POWER_STATE_ON
             then (Inr (), compute_reboot_server self (server_id instance) HARD)
             else (Inr (), self))
          else (Inl (FishyError (''Unknown ResetType '' @ dq @ state @ dq)), self))"

subsection \<open>Boot device\<close>

text \<open>
  Python's truth value of \<^verbatim>\<open>metadata.get(key)\<close>: \<^verbatim>\<open>None\<close> (also for a missing
  key), the empty text and the empty dictionary are false.
\<close>

fun truthy :: "py_value option \<Rightarrow> bool" where
  "truthy None = False"
| "truthy (Some PyNone) = False"
| "truthy (Some (PyStr s)) = (s \<noteq> [])"
| "truthy (Some (PyDict kvs)) = (kvs \<noteq> [])"

definition get_boot_device :: "OpenStackDriver \<Rightarrow> string \<Rightarrow> error + string option" where
  "get_boot_device self identity =
     (case get_instance self identity of
        Inl (FishyError m) \<Rightarrow> Inr None
      | Inl e \<Rightarrow> Inl e
      | Inr instance \<Rightarrow>
          (let metadata = to_dict (compute_get_server_metadata self (server_id instance)) in
           if truthy (metadata ''libvirt:pxe-first'')
           then map_sum id Some (subscript BOOT_DEVICE_MAP_REV ''network'')
           else map_sum id Some (subscript BOOT_DEVICE_MAP_REV ''hd'')))"

text \<open>
  The driver calls \<^verbatim>\<open>set_server_metadata(instance.id, {...})\<close>: the id and the
  dictionary are both positional, and there is no keyword argument. The method's own
  result is dropped; what it raises passes through.
\<close>

definition set_boot_device ::
  "OpenStackDriver \<Rightarrow> string \<Rightarrow> string \<Rightarrow> (error + unit) \<times> OpenStackDriver" where
  "set_boot_device self identity boot_source =
     (case get_instance self identity of
        Inl e \<Rightarrow> (Inl e, self)
      | Inr instance \<Rightarrow>
          (case subscript (map_of BOOT_DEVICE_MAP) boot_source of
             Inl (KeyError k) \<Rightarrow>
               (Inl (FishyError (''Unknown power state requested: '' @ boot_source)), self)
           | Inl e \<Rightarrow> (Inl e, self)
           | Inr target \<Rightarrow>
               compute_set_server_metadata self
                 [PyStr (server_id instance),
                  PyDict [(''libvirt:pxe-first'', if target = ''network'' then ''1'' else '''')]]
                 []))"

subsection \<open>Inventory\<close>

text \<open>
  \<^verbatim>\<open>flavor.ram / 1024.\<close> converts the integer to a double first. The double
  nearest to an integer is found by keeping the 53 leading bits and rounding the rest,
  a tie going to the even neighbour; an integer that rounds to \<open>2 ^ 1024\<close> or more raises
  \<^verbatim>\<open>OverflowError\<close>. The value of a double is kept as a rational number.
\<close>

fun bit_length :: "nat \<Rightarrow> nat" where
  "bit_length n = (if n = 0 then 0 else Suc (bit_length (n div 2)))"

declare bit_length.simps [simp del]

definition int_to_double :: "int \<Rightarrow> error + rat" where
  "int_to_double r =
     (let a = nat \<bar>r\<bar>;
          e = bit_length a - 53;
          q = a div 2 ^ e;
          rest = a mod 2 ^ e;
          q' = (if 2 ^ e < 2 * rest \<or> (2 * rest = 2 ^ e \<and> odd q) then q + 1 else q);
          m = q' * 2 ^ e
      in if 2 ^ 1024 \<le> m then Inl OverflowError
         else Inr (of_int (sgn r * int m)))"

text \<open>
  Dividing a double of this size by \<open>1024\<close> only lowers its exponent, so the quotient is
  exact; \<^verbatim>\<open>math.ceil\<close> of a double is the exact integer ceiling.
\<close>

definition math_ceil :: "rat \<Rightarrow> int" where
  "math_ceil x = \<lceil>x\<rceil>"

definition get_total_memory :: "OpenStackDriver \<Rightarrow> string \<Rightarrow> error + int option" where
  "get_total_memory self identity =
     (case get_flavor self identity of
        Inl (FishyError m) \<Rightarrow> Inr None
      | Inl e \<Rightarrow> Inl e
      | Inr None \<Rightarrow> Inl AttributeError
      | Inr (Some flavor) \<Rightarrow>
          (case int_to_double (ram flavor) of
             Inl e \<Rightarrow> Inl e
           | Inr x \<Rightarrow> Inr (Some (math_ceil (x / 1024)))))"

definition get_total_cpus :: "OpenStackDriver \<Rightarrow> string \<Rightarrow> error + int option" where
  "get_total_cpus self identity =
     (case get_flavor self identity of
        Inl (FishyError m) \<Rightarrow> Inr None
      | Inl e \<Rightarrow> Inl e
      | Inr None \<Rightarrow> Inl AttributeError
      | Inr (Some flavor) \<Rightarrow> Inr (Some (vcpus flavor)))"

subsection \<open>A small cloud to run the driver on\<close>

text \<open>
  Four servers: one that is on and has the network-boot flag in its metadata, one that
  is off, one whose flavor has more memory than a double holds exactly, and one whose
  flavor has been deleted from the catalog.
\<close>

definition example_cloud :: OpenStackDriver where
  "example_cloud =
     \<lparr>cc = \<lparr>servers =
              [''vm1'' \<mapsto> \<lparr>server_id = ''u-1'', power_state = 1, flavor_id = ''f1''\<rparr>,
               ''vm2'' \<mapsto> \<lparr>server_id = ''u-2'', power_state = 4, flavor_id = ''f2''\<rparr>,
               ''vm3'' \<mapsto> \<lparr>server_id = ''u-3'', power_state = 1, flavor_id = ''big''\<rparr>,
               ''vm4'' \<mapsto> \<lparr>server_id = ''u-4'', power_state = 1, flavor_id = ''gone''\<rparr>],
            flavors =
              [''f1'' \<mapsto> \<lparr>ram = 1537, vcpus = 2\<rparr>,
               ''f2'' \<mapsto> \<lparr>ram = 2048, vcpus = 4\<rparr>,
               ''big'' \<mapsto> \<lparr>ram = 9007199254740993, vcpus = 1\<rparr>],
            server_metadata = (\<lambda>i. [])(''u-1'' := [(''libvirt:pxe-first'', ''1'')]),
            calls = []\<rparr>,
      os_cloud = ''devstack''\<rparr>"

section \<open>Properties\<close>

subsection \<open>The example cloud\<close>

lemma example_vm1:
  "get_instance example_cloud ''vm1'' =
     Inr \<lparr>server_id = ''u-1'', power_state = 1, flavor_id = ''f1''\<rparr>"
  by (simp add: get_instance_def example_cloud_def)

lemma example_vm2:
  "get_instance example_cloud ''vm2'' =
     Inr \<lparr>server_id = ''u-2'', power_state = 4, flavor_id = ''f2''\<rparr>"
  by (simp add: get_instance_def example_cloud_def)

lemma example_vm3:
  "get_instance example_cloud ''vm3'' =
     Inr \<lparr>server_id = ''u-3'', power_state = 1, flavor_id = ''big''\<rparr>"
  by (simp add: get_instance_def example_cloud_def)

lemma example_vm4:
  "get_instance example_cloud ''vm4'' =
     Inr \<lparr>server_id = ''u-4'', power_state = 1, flavor_id = ''gone''\<rparr>"
  by (simp add: get_instance_def example_cloud_def)

subsection \<open>Resolution of the flavor\<close>

lemma get_flavor_resolved:
  assumes "get_instance self identity = Inr instance"
  shows "get_flavor self identity = Inr (flavors (cc self) (flavor_id instance))"
  using assms by (simp add: get_flavor_def)

subsection \<open>Power state\<close>

text \<open>
  C3: when the instance resolves, \<open>get_power_state\<close> answers On exactly when the
  backend's power-state code is \<open>NOVA_POWER_STATE_ON\<close>, which is the single code \<open>1\<close>,
  and Off exactly when the code is anything else.
\<close>

theorem get_power_state_mapping:
  assumes "get_instance self identity = Inr instance"
  shows "(get_power_state self identity = Inr (Some ''On'')
            \<longleftrightarrow> power_state instance = NOVA_POWER_STATE_ON)
       \<and> (get_power_state self identity = Inr (Some ''Off'')
            \<longleftrightarrow> power_state instance \<noteq> NOVA_POWER_STATE_ON)
       \<and> NOVA_POWER_STATE_ON = 1"
  using assms by (simp add: get_power_state_def NOVA_POWER_STATE_ON_def)

theorem get_power_state_mapping_witness:
  "get_instance example_cloud ''vm1'' =
     Inr \<lparr>server_id = ''u-1'', power_state = 1, flavor_id = ''f1''\<rparr>
   \<and> get_power_state example_cloud ''vm1'' = Inr (Some ''On'')
   \<and> get_instance example_cloud ''vm2'' =
     Inr \<lparr>server_id = ''u-2'', power_state = 4, flavor_id = ''f2''\<rparr>
   \<and> get_power_state example_cloud ''vm2'' = Inr (Some ''Off'')"
  using get_power_state_mapping [OF example_vm1] get_power_state_mapping [OF example_vm2]
    example_vm1 example_vm2
  by simp

text \<open>
  Every accepted token answers without an error and appends at most one command to what
  the backend has been sent.
\<close>

lemma set_power_state_sends:
  assumes "get_instance self identity = Inr instance"
    and "state \<in> {''On'', ''ForceOn'', ''ForceOff'', ''GracefulShutdown'',
                   ''GracefulRestart'', ''ForceRestart''}"
  shows "\<exists>cmds. set_power_state self identity state =
                  (Inr (), self\<lparr>cc := (cc self)\<lparr>calls := calls (cc self) @ cmds\<rparr>\<rparr>)
               \<and> length cmds \<le> 1"
proof (cases "snd (set_power_state self identity state) = self")
  case True
  have "fst (set_power_state self identity state) = Inr ()"
    using assms by (auto simp add: set_power_state_def)
  with True have "set_power_state self identity state =
      (Inr (), self\<lparr>cc := (cc self)\<lparr>calls := calls (cc self) @ []\<rparr>\<rparr>)"
    by (simp add: prod_eq_iff)
  then show ?thesis by (intro exI [of _ "[]"]) simp
next
  case False
  then obtain c where "set_power_state self identity state = (Inr (), issue c self)"
    using assms
    by (auto simp add: set_power_state_def compute_start_server_def compute_stop_server_def
        compute_reboot_server_def split: if_splits)
  then show ?thesis
    by (intro exI [of _ "[c]"]) (simp add: issue_def)
qed

text \<open>
  C6: for an instance that resolves and a token of the enumeration, \<open>set_power_state\<close>
  succeeds and sends at most one command. When the token is On or ForceOn and the
  instance is already On, or the token is ForceOff or GracefulShutdown and the instance is
  already Off, it sends nothing and leaves the driver as it was. In particular two
  calls with On in a row on an instance that is On send no start at all.
\<close>

theorem set_power_state_state_checked:
  assumes "get_instance self identity = Inr instance"
    and "state \<in> {''On'', ''ForceOn'', ''ForceOff'', ''GracefulShutdown'',
                   ''GracefulRestart'', ''ForceRestart''}"
  shows "fst (set_power_state self identity state) = Inr ()
       \<and> (\<exists>cmds. calls (cc (snd (set_power_state self identity state))) = calls (cc self) @ cmds
                  \<and> length cmds \<le> 1)
       \<and> ((state = ''On'' \<or> state = ''ForceOn'')
            \<and> get_power_state self identity = Inr (Some ''On'')
            \<longrightarrow> snd (set_power_state self identity state) = self)
       \<and> ((state = ''ForceOff'' \<or> state = ''GracefulShutdown'')
            \<and> get_power_state self identity = Inr (Some ''Off'')
            \<longrightarrow> snd (set_power_state self identity state) = self)
       \<and> (get_power_state self identity = Inr (Some ''On'')
            \<longrightarrow> snd (set_power_state (snd (set_power_state self identity ''On'')) identity ''On'')
                  = self)"
proof -
  obtain cmds where c: "set_power_state self identity state =
                  (Inr (), self\<lparr>cc := (cc self)\<lparr>calls := calls (cc self) @ cmds\<rparr>\<rparr>)"
    and l: "length cmds \<le> 1"
    using set_power_state_sends [OF assms] by blast
  have 1: "fst (set_power_state self identity state) = Inr ()"
    using c by simp
  have 2: "\<exists>cmds. calls (cc (snd (set_power_state self identity state))) = calls (cc self) @ cmds
                  \<and> length cmds \<le> 1"
    using c l by auto
  have on: "get_power_state self identity = Inr (Some ''On'')
              \<longleftrightarrow> power_state instance = NOVA_POWER_STATE_ON"
    using assms(1) by (simp add: get_power_state_def)
  have off: "get_power_state self identity = Inr (Some ''Off'')
              \<longleftrightarrow> power_state instance \<noteq> NOVA_POWER_STATE_ON"
    using assms(1) by (simp add: get_power_state_def)
  have 3: "(state = ''On'' \<or> state = ''ForceOn'')
            \<and> get_power_state self identity = Inr (Some ''On'')
            \<longrightarrow> snd (set_power_state self identity state) = self"
    using assms(1) by (auto simp add: on set_power_state_def)
  have 4: "(state = ''ForceOff'' \<or> state = ''GracefulShutdown'')
            \<and> get_power_state self identity = Inr (Some ''Off'')
            \<longrightarrow> snd (set_power_state self identity state) = self"
    using assms(1) by (auto simp add: off set_power_state_def)
  have 5: "get_power_state self identity = Inr (Some ''On'')
            \<longrightarrow> snd (set_power_state (snd (set_power_state self identity ''On'')) identity ''On'')
                  = self"
    using assms(1) by (simp add: on set_power_state_def)
  from 1 2 3 4 5 show ?thesis by blast
qed

theorem set_power_state_state_checked_witness:
  "get_instance example_cloud ''vm1'' =
     Inr \<lparr>server_id = ''u-1'', power_state = 1, flavor_id = ''f1''\<rparr>
   \<and> get_power_state example_cloud ''vm1'' = Inr (Some ''On'')
   \<and> set_power_state example_cloud ''vm1'' ''On'' = (Inr (), example_cloud)
   \<and> snd (set_power_state (snd (set_power_state example_cloud ''vm1'' ''On'')) ''vm1'' ''On'')
       = example_cloud
   \<and> get_instance example_cloud ''vm2'' =
     Inr \<lparr>server_id = ''u-2'', power_state = 4, flavor_id = ''f2''\<rparr>
   \<and> get_power_state example_cloud ''vm2'' = Inr (Some ''Off'')
   \<and> set_power_state example_cloud ''vm2'' ''ForceOff'' = (Inr (), example_cloud)"
proof -
  have t1: "''On'' \<in> {''On'', ''ForceOn'', ''ForceOff'', ''GracefulShutdown'',
                   ''GracefulRestart'', ''ForceRestart''}"
    by simp
  have t2: "''ForceOff'' \<in> {''On'', ''ForceOn'', ''ForceOff'', ''GracefulShutdown'',
                   ''GracefulRestart'', ''ForceRestart''}"
    by simp
  have p1: "get_power_state example_cloud ''vm1'' = Inr (Some ''On'')"
    using example_vm1 by (simp add: get_power_state_def NOVA_POWER_STATE_ON_def)
  have p2: "get_power_state example_cloud ''vm2'' = Inr (Some ''Off'')"
    using example_vm2 by (simp add: get_power_state_def NOVA_POWER_STATE_ON_def)
  show ?thesis
    using example_vm1 example_vm2 p1 p2
      set_power_state_state_checked [OF example_vm1 t1]
      set_power_state_state_checked [OF example_vm2 t2]
    by (simp add: prod_eq_iff)
qed

text \<open>
  C7: for an instance that resolves, a token outside the enumeration (such as Nmi) makes
  \<open>set_power_state\<close> raise the driver's error with the message
  \<^verbatim>\<open>Unknown ResetType "<token>"\<close>, and the driver is left as it was: no start, stop or
  reboot has been sent.
\<close>

theorem set_power_state_unknown_token:
  assumes "get_instance self identity = Inr instance"
    and "state \<notin> {''On'', ''ForceOn'', ''ForceOff'', ''GracefulShutdown'',
                   ''GracefulRestart'', ''ForceRestart''}"
  shows "set_power_state self identity state =
           (Inl (FishyError (''Unknown ResetType '' @ dq @ state @ dq)), self)"
  using assms by (simp add: set_power_state_def)

theorem set_power_state_unknown_token_witness:
  "get_instance example_cloud ''vm1'' =
     Inr \<lparr>server_id = ''u-1'', power_state = 1, flavor_id = ''f1''\<rparr>
   \<and> ''Nmi'' \<notin> {''On'', ''ForceOn'', ''ForceOff'', ''GracefulShutdown'',
                 ''GracefulRestart'', ''ForceRestart''}
   \<and> set_power_state example_cloud ''vm1'' ''Nmi'' =
         (Inl (FishyError (''Unknown ResetType '' @ dq @ ''Nmi'' @ dq)), example_cloud)"
proof -
  have t: "''Nmi'' \<notin> {''On'', ''ForceOn'', ''ForceOff'', ''GracefulShutdown'',
                      ''GracefulRestart'', ''ForceRestart''}"
    by simp
  show ?thesis
    using example_vm1 t set_power_state_unknown_token [OF example_vm1 t] by simp
qed

subsection \<open>An identity that does not resolve\<close>

text \<open>
  C2: when \<^verbatim>\<open>get_server\<close> finds nothing for the identity, the four readers
  \<open>get_power_state\<close>, \<open>get_boot_device\<close>, \<open>get_total_memory\<close> and \<open>get_total_cpus\<close>
  return \<^verbatim>\<open>None\<close> and raise nothing, while \<open>uuid\<close>, \<open>set_power_state\<close> and
  \<open>set_boot_device\<close> raise the error of \<open>get_instance\<close>, whose message holds the identity
  and the cloud's name; the two writers leave the driver as it was.
\<close>

theorem missing_instance:
  assumes "servers (cc self) identity = None"
  shows "get_power_state self identity = Inr None
       \<and> get_boot_device self identity = Inr None
       \<and> get_total_memory self identity = Inr None
       \<and> get_total_cpus self identity = Inr None
       \<and> uuid self identity =
           Inl (FishyError (''Error finding instance by UUID '' @ dq @ identity @ dq
                  @ '' at OS cloud '' @ os_cloud self @ dq))
       \<and> set_power_state self identity state =
           (Inl (FishyError (''Error finding instance by UUID '' @ dq @ identity @ dq
                  @ '' at OS cloud '' @ os_cloud self @ dq)), self)
       \<and> set_boot_device self identity boot_source =
           (Inl (FishyError (''Error finding instance by UUID '' @ dq @ identity @ dq
                  @ '' at OS cloud '' @ os_cloud self @ dq)), self)"
  using assms
  by (simp add: get_instance_def get_flavor_def get_power_state_def get_boot_device_def
      get_total_memory_def get_total_cpus_def uuid_def set_power_state_def set_boot_device_def)

theorem missing_instance_witness:
  "servers (cc example_cloud) ''vm9'' = None
   \<and> get_power_state example_cloud ''vm9'' = Inr None
   \<and> get_boot_device example_cloud ''vm9'' = Inr None
   \<and> get_total_memory example_cloud ''vm9'' = Inr None
   \<and> get_total_cpus example_cloud ''vm9'' = Inr None
   \<and> uuid example_cloud ''vm9'' =
        Inl (FishyError (''Error finding instance by UUID '' @ dq @ ''vm9'' @ dq
               @ '' at OS cloud devstack'' @ dq))
   \<and> fst (set_power_state example_cloud ''vm9'' ''On'') =
        Inl (FishyError (''Error finding instance by UUID '' @ dq @ ''vm9'' @ dq
               @ '' at OS cloud devstack'' @ dq))
   \<and> fst (set_boot_device example_cloud ''vm9'' ''Pxe'') =
        Inl (FishyError (''Error finding instance by UUID '' @ dq @ ''vm9'' @ dq
               @ '' at OS cloud devstack'' @ dq))"
proof -
  have h: "servers (cc example_cloud) ''vm9'' = None"
    by (simp add: example_cloud_def)
  have c: "os_cloud example_cloud = ''devstack''"
    by (simp add: example_cloud_def)
  show ?thesis
    using h c missing_instance [OF h, of "''On''" "''Pxe''"] by simp
qed

subsection \<open>Boot device\<close>

lemma BOOT_DEVICE_MAP_REV_network: "subscript BOOT_DEVICE_MAP_REV ''network'' = Inr ''Pxe''"
  by (simp add: subscript_def BOOT_DEVICE_MAP_REV_def BOOT_DEVICE_MAP_def)

lemma BOOT_DEVICE_MAP_REV_hd: "subscript BOOT_DEVICE_MAP_REV ''hd'' = Inr ''Hdd''"
  by (simp add: subscript_def BOOT_DEVICE_MAP_REV_def BOOT_DEVICE_MAP_def)

text \<open>
  The client's method does store what it is given as keyword arguments, and the
  resource read back holds it under \<^verbatim>\<open>metadata\<close>.
\<close>

lemma compute_set_server_metadata_keywords:
  "fst (compute_set_server_metadata self [PyStr i] kwargs) = Inr ()"
  "calls (cc (snd (compute_set_server_metadata self [PyStr i] kwargs))) =
     calls (cc self) @ [set_server_metadata i kwargs]"
  "to_dict (compute_get_server_metadata
              (snd (compute_set_server_metadata self [PyStr i] kwargs)) i) ''metadata'' =
     Some (PyDict (kwargs @ server_metadata (cc self) i))"
  by (simp_all add: compute_set_server_metadata_def compute_get_server_metadata_def issue_def)

text \<open>
  The dictionary the driver reads has no key \<^verbatim>\<open>libvirt:pxe-first\<close>, whatever the
  metadata of the server holds.
\<close>

lemma to_dict_no_flag:
  "to_dict (compute_get_server_metadata self i) ''libvirt:pxe-first'' = None"
  by (simp add: compute_get_server_metadata_def)

lemma get_boot_device_resolved:
  assumes "get_instance self identity = Inr instance"
  shows "get_boot_device self identity = Inr (Some ''Hdd'')"
  using assms
  by (simp add: get_boot_device_def to_dict_no_flag BOOT_DEVICE_MAP_REV_hd)

text \<open>
  A device that is a key of \<open>BOOT_DEVICE_MAP\<close> reaches the metadata call, which has two
  positional arguments and fails on that: nothing is sent and nothing is stored.
\<close>

lemma set_boot_device_known:
  assumes "get_instance self identity = Inr instance"
    and "map_of BOOT_DEVICE_MAP boot_source = Some target"
  shows "set_boot_device self identity boot_source = (Inl TypeError, self)"
  using assms by (simp add: set_boot_device_def subscript_def compute_set_server_metadata_def)

text \<open>
  C8: the server \<^verbatim>\<open>vm1\<close> of the example cloud resolves and its metadata holds the
  value \<^verbatim>\<open>1\<close> under \<^verbatim>\<open>libvirt:pxe-first\<close>. The dictionary that \<open>get_boot_device\<close>
  reads has that item under the key \<^verbatim>\<open>metadata\<close> and nothing under
  \<^verbatim>\<open>libvirt:pxe-first\<close>, so the answer is Hdd, not Pxe.
\<close>

theorem get_boot_device_flag_example:
  "get_instance example_cloud ''vm1'' =
     Inr \<lparr>server_id = ''u-1'', power_state = 1, flavor_id = ''f1''\<rparr>
   \<and> server_metadata (cc example_cloud) ''u-1'' = [(''libvirt:pxe-first'', ''1'')]
   \<and> to_dict (compute_get_server_metadata example_cloud ''u-1'') ''metadata'' =
       Some (PyDict [(''libvirt:pxe-first'', ''1'')])
   \<and> to_dict (compute_get_server_metadata example_cloud ''u-1'') ''libvirt:pxe-first'' = None
   \<and> get_boot_device example_cloud ''vm1'' = Inr (Some ''Hdd'')"
proof -
  have m: "server_metadata (cc example_cloud) ''u-1'' = [(''libvirt:pxe-first'', ''1'')]"
    by (simp add: example_cloud_def)
  have d: "to_dict (compute_get_server_metadata example_cloud ''u-1'') ''metadata'' =
             Some (PyDict [(''libvirt:pxe-first'', ''1'')])"
    by (simp add: compute_get_server_metadata_def m)
  show ?thesis
    using example_vm1 m d to_dict_no_flag [of example_cloud "''u-1''"]
      get_boot_device_resolved [OF example_vm1]
    by simp
qed

text \<open>
  C5: the server \<^verbatim>\<open>vm2\<close> of the example cloud resolves. \<open>set_boot_device\<close> with Pxe
  raises \<^verbatim>\<open>TypeError\<close> for it and leaves the driver as it was, and the
  \<open>get_boot_device\<close> that follows answers Hdd, not Pxe. With Hdd the call raises in the
  same way, and the answer that follows is Hdd.
\<close>

theorem boot_device_round_trip_example:
  "get_instance example_cloud ''vm2'' =
     Inr \<lparr>server_id = ''u-2'', power_state = 4, flavor_id = ''f2''\<rparr>
   \<and> set_boot_device example_cloud ''vm2'' ''Pxe'' = (Inl TypeError, example_cloud)
   \<and> get_boot_device (snd (set_boot_device example_cloud ''vm2'' ''Pxe'')) ''vm2''
       = Inr (Some ''Hdd'')
   \<and> set_boot_device example_cloud ''vm2'' ''Hdd'' = (Inl TypeError, example_cloud)
   \<and> get_boot_device (snd (set_boot_device example_cloud ''vm2'' ''Hdd'')) ''vm2''
       = Inr (Some ''Hdd'')"
proof -
  have p: "map_of BOOT_DEVICE_MAP ''Pxe'' = Some ''network''"
    by (simp add: BOOT_DEVICE_MAP_def)
  have h: "map_of BOOT_DEVICE_MAP ''Hdd'' = Some ''hd''"
    by (simp add: BOOT_DEVICE_MAP_def)
  show ?thesis
    using example_vm2 get_boot_device_resolved [OF example_vm2]
    by (simp add: set_boot_device_known [OF example_vm2 p]
        set_boot_device_known [OF example_vm2 h])
qed

text \<open>
  C10: \<open>BOOT_DEVICE_MAP\<close> has the entry Cd to cdrom, and the server \<^verbatim>\<open>vm2\<close> of the
  example cloud resolves. \<open>set_boot_device\<close> with Cd does not succeed for it: it raises
  \<^verbatim>\<open>TypeError\<close>, sends no request and stores nothing.
\<close>

theorem set_boot_device_cd_example:
  "get_instance example_cloud ''vm2'' =
     Inr \<lparr>server_id = ''u-2'', power_state = 4, flavor_id = ''f2''\<rparr>
   \<and> map_of BOOT_DEVICE_MAP ''Cd'' = Some ''cdrom''
   \<and> set_boot_device example_cloud ''vm2'' ''Cd'' = (Inl TypeError, example_cloud)
   \<and> calls (cc (snd (set_boot_device example_cloud ''vm2'' ''Cd''))) = []
   \<and> server_metadata (cc (snd (set_boot_device example_cloud ''vm2'' ''Cd''))) ''u-2'' = []"
proof -
  have c: "map_of BOOT_DEVICE_MAP ''Cd'' = Some ''cdrom''"
    by (simp add: BOOT_DEVICE_MAP_def)
  have k: "calls (cc example_cloud) = []"
    by (simp add: example_cloud_def)
  have m: "server_metadata (cc example_cloud) ''u-2'' = []"
    by (simp add: example_cloud_def)
  show ?thesis
    using example_vm2 c k m by (simp add: set_boot_device_known [OF example_vm2 c])
qed

text \<open>
  C1, as the code has it: when the instance resolves, a device that is none of the three
  keys Pxe, Hdd and Cd of \<open>BOOT_DEVICE_MAP\<close> makes \<open>set_boot_device\<close> raise the driver's
  error, with a message that ends in the device, and the driver is left as it was: no
  metadata request has been sent and the metadata is unchanged.
\<close>

theorem set_boot_device_unknown_device:
  assumes "get_instance self identity = Inr instance"
    and "boot_source \<notin> {''Pxe'', ''Hdd'', ''Cd''}"
  shows "set_boot_device self identity boot_source =
           (Inl (FishyError (''Unknown power state requested: '' @ boot_source)), self)"
  using assms by (simp add: set_boot_device_def subscript_def BOOT_DEVICE_MAP_def)

theorem set_boot_device_unknown_device_witness:
  "get_instance example_cloud ''vm1'' =
     Inr \<lparr>server_id = ''u-1'', power_state = 1, flavor_id = ''f1''\<rparr>
   \<and> ''Floppy'' \<notin> {''Pxe'', ''Hdd'', ''Cd''}
   \<and> set_boot_device example_cloud ''vm1'' ''Floppy'' =
         (Inl (FishyError ''Unknown power state requested: Floppy''), example_cloud)"
proof -
  have t: "''Floppy'' \<notin> {''Pxe'', ''Hdd'', ''Cd''}"
    by simp
  show ?thesis
    using example_vm1 t set_boot_device_unknown_device [OF example_vm1 t] by simp
qed

text \<open>
  The device Cd is not rejected as unknown. It is outside the pair Pxe and Hdd, yet on
  the server \<^verbatim>\<open>vm1\<close> of the example cloud the lookup in \<open>BOOT_DEVICE_MAP\<close> finds
  cdrom for it, and what \<open>set_boot_device\<close> raises is not the driver's error.
\<close>

theorem set_boot_device_cd_counterexample:
  "get_instance example_cloud ''vm1'' =
     Inr \<lparr>server_id = ''u-1'', power_state = 1, flavor_id = ''f1''\<rparr>
   \<and> ''Cd'' \<notin> {''Pxe'', ''Hdd''}
   \<and> subscript (map_of BOOT_DEVICE_MAP) ''Cd'' = Inr ''cdrom''
   \<and> fst (set_boot_device example_cloud ''vm1'' ''Cd'') = Inl TypeError
   \<and> \<not> is_FishyError (fst (set_boot_device example_cloud ''vm1'' ''Cd''))"
proof -
  have c: "map_of BOOT_DEVICE_MAP ''Cd'' = Some ''cdrom''"
    by (simp add: BOOT_DEVICE_MAP_def)
  show ?thesis
    using example_vm1 c
    by (simp add: set_boot_device_known [OF example_vm1 c] subscript_def)
qed

subsection \<open>Inventory\<close>

text \<open>An integer below \<open>2 ^ k\<close> has at most \<open>k\<close> bits.\<close>

lemma bit_length_le: "a < 2 ^ k \<Longrightarrow> bit_length a \<le> k"
proof (induction k arbitrary: a)
  case 0
  then show ?case by (simp add: bit_length.simps)
next
  case (Suc k)
  show ?case
  proof (cases "a = 0")
    case True
    then show ?thesis by (simp add: bit_length.simps)
  next
    case False
    from Suc.prems have "a div 2 < 2 ^ k" by simp
    then have "bit_length (a div 2) \<le> k" by (rule Suc.IH)
    with False show ?thesis by (subst bit_length.simps) simp
  qed
qed

text \<open>Up to \<open>2 ^ 53\<close> in absolute value the conversion to a double loses nothing.\<close>

lemma int_to_double_small:
  assumes "\<bar>r\<bar> < 2 ^ 53"
  shows "int_to_double r = Inr (of_int r)"
proof -
  have a: "nat \<bar>r\<bar> < 2 ^ 53"
    using assms by (simp add: nat_less_iff)
  then have "bit_length (nat \<bar>r\<bar>) \<le> 53"
    by (rule bit_length_le)
  then have e: "bit_length (nat \<bar>r\<bar>) - 53 = 0"
    by simp
  have "(2::nat) ^ 53 \<le> 2 ^ 1024"
    by (rule power_increasing) simp_all
  with a have b: "\<not> 2 ^ 1024 \<le> nat \<bar>r\<bar>"
    by linarith
  have s: "sgn r * int (nat \<bar>r\<bar>) = r"
    by (simp add: mult_sgn_abs)
  show ?thesis
    unfolding int_to_double_def Let_def e using b s by simp
qed

lemma bit_length_2_53: "bit_length 9007199254740992 = 54"
  by code_simp

lemma bit_length_2_53_1: "bit_length 9007199254740993 = 54"
  by code_simp

lemma int_to_double_exact:
  assumes "\<bar>r\<bar> \<le> 2 ^ 53"
  shows "int_to_double r = Inr (of_int r)"
proof -
  consider "\<bar>r\<bar> < 2 ^ 53" | "r = 2 ^ 53" | "r = - (2 ^ 53)"
    using assms by linarith
  then show ?thesis
  proof cases
    case 1
    then show ?thesis by (rule int_to_double_small)
  next
    case 2
    have "int_to_double 9007199254740992 = Inr (of_int 9007199254740992)"
      by (simp add: int_to_double_def Let_def bit_length_2_53)
    with 2 show ?thesis by simp
  next
    case 3
    have "int_to_double (- 9007199254740992) = Inr (of_int (- 9007199254740992))"
      by (simp add: int_to_double_def Let_def bit_length_2_53)
    with 3 show ?thesis by simp
  qed
qed

text \<open>
  C4, as the code has it: when the instance resolves to a flavor whose \<open>ram\<close> is at most
  \<open>2 ^ 53\<close> in absolute value, \<open>get_total_memory\<close> returns the ceiling of \<open>ram / 1024\<close>.
\<close>

theorem get_total_memory_ceiling:
  assumes "get_instance self identity = Inr instance"
    and "flavors (cc self) (flavor_id instance) = Some profile"
    and "\<bar>ram profile\<bar> \<le> 2 ^ 53"
  shows "get_total_memory self identity =
           Inr (Some \<lceil>(of_int (ram profile) :: rat) / 1024\<rceil>)"
  using assms(2)
  by (simp add: get_total_memory_def get_flavor_resolved [OF assms(1)]
      int_to_double_exact [OF assms(3)] math_ceil_def)

theorem get_total_memory_ceiling_witness:
  "get_instance example_cloud ''vm1'' =
     Inr \<lparr>server_id = ''u-1'', power_state = 1, flavor_id = ''f1''\<rparr>
   \<and> flavors (cc example_cloud) ''f1'' = Some \<lparr>ram = 1537, vcpus = 2\<rparr>
   \<and> \<bar>1537 :: int\<bar> \<le> 2 ^ 53
   \<and> get_total_memory example_cloud ''vm1'' = Inr (Some 2)
   \<and> get_instance example_cloud ''vm2'' =
     Inr \<lparr>server_id = ''u-2'', power_state = 4, flavor_id = ''f2''\<rparr>
   \<and> flavors (cc example_cloud) ''f2'' = Some \<lparr>ram = 2048, vcpus = 4\<rparr>
   \<and> \<bar>2048 :: int\<bar> \<le> 2 ^ 53
   \<and> get_total_memory example_cloud ''vm2'' = Inr (Some 2)"
proof -
  have f1: "flavors (cc example_cloud)
              (flavor_id \<lparr>server_id = ''u-1'', power_state = 1, flavor_id = ''f1''\<rparr>)
              = Some \<lparr>ram = 1537, vcpus = 2\<rparr>"
    by (simp add: example_cloud_def)
  have f2: "flavors (cc example_cloud)
              (flavor_id \<lparr>server_id = ''u-2'', power_state = 4, flavor_id = ''f2''\<rparr>)
              = Some \<lparr>ram = 2048, vcpus = 4\<rparr>"
    by (simp add: example_cloud_def)
  have r1: "\<bar>ram \<lparr>ram = 1537, vcpus = 2\<rparr>\<bar> \<le> 2 ^ 53"
    by simp
  have r2: "\<bar>ram \<lparr>ram = 2048, vcpus = 4\<rparr>\<bar> \<le> 2 ^ 53"
    by simp
  have c1: "\<lceil>(1537 :: rat) / 1024\<rceil> = 2"
    by (simp add: ceiling_eq_iff)
  have c2: "\<lceil>(2048 :: rat) / 1024\<rceil> = 2"
    by (simp add: ceiling_eq_iff)
  show ?thesis
    using example_vm1 example_vm2 f1 f2 c1 c2
      get_total_memory_ceiling [OF example_vm1 f1 r1]
      get_total_memory_ceiling [OF example_vm2 f2 r2]
    by simp
qed

text \<open>
  Beyond \<open>2 ^ 53\<close> the ceiling can be missed. The server \<^verbatim>\<open>vm3\<close> of the example cloud
  has a flavor with \<open>ram = 2 ^ 53 + 1\<close>; the double nearest to it is \<open>2 ^ 53\<close>, so
  \<open>get_total_memory\<close> returns \<open>2 ^ 43\<close>, one less than the ceiling of \<open>ram / 1024\<close>.
\<close>

theorem get_total_memory_ceiling_counterexample:
  "get_instance example_cloud ''vm3'' =
     Inr \<lparr>server_id = ''u-3'', power_state = 1, flavor_id = ''big''\<rparr>
   \<and> flavors (cc example_cloud) ''big'' = Some \<lparr>ram = 9007199254740993, vcpus = 1\<rparr>
   \<and> get_total_memory example_cloud ''vm3'' = Inr (Some 8796093022208)
   \<and> \<lceil>(9007199254740993 :: rat) / 1024\<rceil> = 8796093022209"
proof -
  have f: "flavors (cc example_cloud) ''big'' = Some \<lparr>ram = 9007199254740993, vcpus = 1\<rparr>"
    by (simp add: example_cloud_def)
  have d: "int_to_double 9007199254740993 = Inr 9007199254740992"
    by (simp add: int_to_double_def Let_def bit_length_2_53_1)
  have m: "get_total_memory example_cloud ''vm3'' = Inr (Some 8796093022208)"
    using f by (simp add: get_total_memory_def get_flavor_resolved [OF example_vm3] d
        math_ceil_def)
  have c: "\<lceil>(9007199254740993 :: rat) / 1024\<rceil> = 8796093022209"
    by (simp add: ceiling_eq_iff)
  show ?thesis
    using example_vm3 f m c by simp
qed

text \<open>
  When the instance resolves and \<^verbatim>\<open>get_flavor\<close> finds no flavor, both inventory
  readers fail on the attribute of \<^verbatim>\<open>None\<close>; their \<^verbatim>\<open>except FishyError\<close> clause does
  not catch that.
\<close>

lemma missing_flavor_raises:
  assumes "get_instance self identity = Inr instance"
    and "flavors (cc self) (flavor_id instance) = None"
  shows "get_total_memory self identity = Inl AttributeError"
    and "get_total_cpus self identity = Inl AttributeError"
  using assms(2)
  by (simp_all add: get_total_memory_def get_total_cpus_def get_flavor_resolved [OF assms(1)])

text \<open>
  C9: the server \<^verbatim>\<open>vm4\<close> of the example cloud resolves, and its flavor is no longer
  in the catalog. \<open>get_total_memory\<close> and \<open>get_total_cpus\<close> do not return \<^verbatim>\<open>None\<close>
  for it: each raises \<^verbatim>\<open>AttributeError\<close>.
\<close>

theorem missing_flavor_example:
  "get_instance example_cloud ''vm4'' =
     Inr \<lparr>server_id = ''u-4'', power_state = 1, flavor_id = ''gone''\<rparr>
   \<and> flavors (cc example_cloud) ''gone'' = None
   \<and> get_total_memory example_cloud ''vm4'' = Inl AttributeError
   \<and> get_total_cpus example_cloud ''vm4'' = Inl AttributeError"
proof -
  have f: "flavors (cc example_cloud)
             (flavor_id \<lparr>server_id = ''u-4'', power_state = 1, flavor_id = ''gone''\<rparr>) = None"
    by (simp add: example_cloud_def)
  show ?thesis
    using example_vm4 f missing_flavor_raises [OF example_vm4 f] by simp
qed

end
